theory Spec2Isabelle
  imports Main "HOL-Library.Stream"
begin

section \<open>JavaScript values\<close>

text \<open>
  The values that cross the client's boundary (request parameters, parsed JSON bodies):
  the values JSON has, and \<^verbatim>\<open>undefined\<close>. The client does two things with a number: it
  tests its truthiness and it prints it. \<open>JNum\<close> therefore holds the text JavaScript
  prints for the number (\<^verbatim>\<open>404\<close>, \<^verbatim>\<open>0.5\<close>, \<^verbatim>\<open>1e+21\<close>, \<^verbatim>\<open>NaN\<close>), which
  determines the number up to the sign of zero. A string is the list of the bytes of
  its UTF-8 encoding. An object is the list of its own enumerable properties in the
  order \<^verbatim>\<open>Object.entries\<close> enumerates them; no property value is callable.
\<close>

datatype jsval =
    JUndefined
  | JNull
  | JBool bool
  | JNum string
  | JStr string
  | JArr "jsval list"
  | JObj "(string \<times> jsval) list"

type_synonym obj = "(string \<times> jsval) list"

text \<open>
  ToBoolean: what \<^verbatim>\<open>!!v\<close>, \<^verbatim>\<open>v || w\<close> and \<^verbatim>\<open>if (v)\<close> test. The falsy numbers are the
  two zeros, both printed \<^verbatim>\<open>0\<close>, and \<^verbatim>\<open>NaN\<close>.
\<close>

fun truthy :: "jsval \<Rightarrow> bool" where
  "truthy JUndefined = False"
| "truthy JNull = False"
| "truthy (JBool b) = b"
| "truthy (JNum n) = (n \<noteq> ''0'' \<and> n \<noteq> ''NaN'')"
| "truthy (JStr s) = (s \<noteq> [])"
| "truthy (JArr xs) = True"
| "truthy (JObj kvs) = True"

text \<open>
  Optional property read \<^verbatim>\<open>v?.k\<close>, for the property names the client reads
  (\<^verbatim>\<open>error\<close>, \<^verbatim>\<open>Message\<close>, \<^verbatim>\<open>message\<close>, \<^verbatim>\<open>code\<close>, \<^verbatim>\<open>type\<close>): none of them is
  inherited from a prototype, so everything but an object with that own property
  yields \<^verbatim>\<open>undefined\<close>.
\<close>

fun get_prop :: "jsval \<Rightarrow> string \<Rightarrow> jsval" where
  "get_prop (JObj kvs) k = (case map_of kvs k of None \<Rightarrow> JUndefined | Some v \<Rightarrow> v)"
| "get_prop v k = JUndefined"

text \<open>\<^verbatim>\<open>v && typeof v === 'object' && v !== null\<close>\<close>

fun is_object :: "jsval \<Rightarrow> bool" where
  "is_object (JObj kvs) = True"
| "is_object (JArr xs) = True"
| "is_object v = False"

subsection \<open>Rendering as text\<close>

definition digit_char :: "nat \<Rightarrow> char" where
  "digit_char d = ''0123456789'' ! (d mod 10)"

fun show_nat :: "nat \<Rightarrow> string" where
  "show_nat n = (if n < 10 then [digit_char n] else show_nat (n div 10) @ [digit_char (n mod 10)])"

declare show_nat.simps [simp del]

fun join :: "string \<Rightarrow> string list \<Rightarrow> string" where
  "join sep [] = []"
| "join sep [s] = s"
| "join sep (s # t # ss) = s @ sep @ join sep (t # ss)"

text \<open>
  ToString, the conversion behind a template literal, \<^verbatim>\<open>Array.prototype.join\<close> and the
  \<^verbatim>\<open>Error\<close> constructor; \<open>None\<close> is the TypeError it throws. An array joins its elements
  with commas, an \<^verbatim>\<open>undefined\<close> or \<^verbatim>\<open>null\<close> element printing as nothing. A plain object
  prints as \<^verbatim>\<open>[object Object]\<close> through the inherited \<^verbatim>\<open>toString\<close>; an object with an
  own property \<^verbatim>\<open>toString\<close> (not callable, as no property value is) has no primitive
  value and the conversion throws.
\<close>

fun ToString :: "jsval \<Rightarrow> string option" where
  "ToString JUndefined = Some ''undefined''"
| "ToString JNull = Some ''null''"
| "ToString (JBool b) = Some (if b then ''true'' else ''false'')"
| "ToString (JNum n) = Some n"
| "ToString (JStr s) = Some s"
| "ToString (JArr xs) =
     map_option (join '','')
       (those (map (\<lambda>x. if x = JUndefined \<or> x = JNull then Some [] else ToString x) xs))"
| "ToString (JObj kvs) =
     (if ''toString'' \<in> fst ` set kvs then None else Some ''[object Object]'')"

subsection \<open>String tests\<close>

definition starts_with :: "string \<Rightarrow> string \<Rightarrow> bool" where
  "starts_with s sub = (take (length sub) s = sub)"

text \<open>\<^verbatim>\<open>String.prototype.includes\<close>: some suffix of \<open>s\<close> starts with \<open>sub\<close>.\<close>

fun str_includes :: "string \<Rightarrow> string \<Rightarrow> bool" where
  "str_includes [] sub = (sub = [])"
| "str_includes (c # cs) sub = (starts_with (c # cs) sub \<or> str_includes cs sub)"

definition is_digit :: "char \<Rightarrow> bool" where
  "is_digit c = (c \<in> set ''0123456789'')"

text \<open>The regular expression \<^verbatim>\<open>/^5\d{2}/\<close>: anchored at the first character.\<close>

fun matches_5xx :: "string \<Rightarrow> bool" where
  "matches_5xx (a # b # c # rest) = (a = CHR ''5'' \<and> is_digit b \<and> is_digit c)"
| "matches_5xx s = False"

section \<open>Error classes (errors.ts)\<close>

text \<open>
  \<open>TripAdvisorError message code type isApiError\<close>, \<open>ConfigurationError message\<close> and
  \<open>ValidationError message\<close> are the three classes the repository declares.
  \<open>PlainError name message\<close> is every other error object: the \<^verbatim>\<open>new Error(...)\<close> of
  \<^verbatim>\<open>sendRequest\<close> and whatever \<^verbatim>\<open>fetch\<close> or \<^verbatim>\<open>response.json()\<close> reject with.
  The \<^verbatim>\<open>as number\<close> and \<^verbatim>\<open>as string\<close> casts of \<^verbatim>\<open>fromApiResponse\<close> convert nothing,
  so \<open>code\<close> and \<open>type\<close> hold whatever value the body had.
\<close>

datatype js_error =
    PlainError string string
  | TripAdvisorError string jsval jsval bool
  | ConfigurationError string
  | ValidationError string

fun error_name :: "js_error \<Rightarrow> string" where
  "error_name (PlainError n m) = n"
| "error_name (TripAdvisorError m c t a) = ''TripAdvisorError''"
| "error_name (ConfigurationError m) = ''ConfigurationError''"
| "error_name (ValidationError m) = ''ValidationError''"

fun error_message :: "js_error \<Rightarrow> string" where
  "error_message (PlainError n m) = m"
| "error_message (TripAdvisorError m c t a) = m"
| "error_message (ConfigurationError m) = m"
| "error_message (ValidationError m) = m"

text \<open>An instance of one of the classes the package exports.\<close>

fun typed_error :: "js_error \<Rightarrow> bool" where
  "typed_error (PlainError n m) = False"
| "typed_error e = True"

text \<open>
  The two TypeErrors of a value that cannot be printed, with the messages Node gives
  them: \<^verbatim>\<open>value.toString()\<close> on an object whose own \<^verbatim>\<open>toString\<close> is not callable, and
  ToString on a value without a primitive value.
\<close>

definition not_a_function :: js_error where
  "not_a_function = PlainError ''TypeError'' ''value.toString is not a function''"

definition cannot_convert :: js_error where
  "cannot_convert = PlainError ''TypeError'' ''Cannot convert object to primitive value''"

text \<open>
  \<^verbatim>\<open>new TripAdvisorError(message, code, type, isApiError)\<close>: \<^verbatim>\<open>super(message)\<close> stores
  ToString of the message (nothing, for \<^verbatim>\<open>undefined\<close>) and throws where ToString does.
  \<open>Inl\<close> is what the constructor throws, \<open>Inr\<close> the error object it returns.
\<close>

definition new_TripAdvisorError :: "jsval \<Rightarrow> jsval \<Rightarrow> jsval \<Rightarrow> bool \<Rightarrow> js_error + js_error" where
  "new_TripAdvisorError message code type isApi =
     (if message = JUndefined then Inr (TripAdvisorError [] code type isApi)
      else
        (case ToString message of
           None \<Rightarrow> Inl cannot_convert
         | Some m \<Rightarrow> Inr (TripAdvisorError m code type isApi)))"

definition fromApiResponse :: "jsval \<Rightarrow> js_error + js_error" where
  "fromApiResponse response =
     (let err = get_prop response ''error'' in
      if truthy err \<and> is_object err then
        new_TripAdvisorError
          (if truthy (get_prop err ''message'') then get_prop err ''message''
           else JStr ''Unknown API error'')
          (get_prop err ''code'') (get_prop err ''type'') True
      else if truthy (get_prop response ''Message'') then
        new_TripAdvisorError (get_prop response ''Message'')
          (get_prop response ''code'') (get_prop response ''type'') True
      else new_TripAdvisorError (JStr ''Unknown API error'') JUndefined JUndefined True)"

text \<open>\<^verbatim>\<open>throw f(x)\<close>: what reaches the handler, whether \<open>f\<close> threw or returned.\<close>

fun raised :: "js_error + js_error \<Rightarrow> js_error" where
  "raised (Inl e) = e"
| "raised (Inr e) = e"

definition isApiError :: "jsval \<Rightarrow> bool" where
  "isApiError response = (truthy (get_prop response ''error'') \<or> truthy (get_prop response ''Message''))"

section \<open>The HTTP client (http-client.ts)\<close>

definition isRetryableError :: "js_error \<Rightarrow> bool" where
  "isRetryableError error =
     (error_name error = ''AbortError'' \<or>
      str_includes (error_message error) ''fetch'' \<or>
      str_includes (error_message error) ''network'' \<or>
      str_includes (error_message error) ''timeout'' \<or>
      matches_5xx (error_message error))"


subsection \<open>Configuration as the client reads it (config.ts)\<close>

text \<open>
  The stored configuration object. \<^verbatim>\<open>validateAndMergeConfig\<close> builds it as
  \<^verbatim>\<open>{...DEFAULT_CONFIG, ...config, apiKey}\<close>, so all seven keys are present; a caller
  who passes \<^verbatim>\<open>baseUrl: undefined\<close> overrides the default with \<^verbatim>\<open>undefined\<close>, hence
  the options (\<open>None\<close> is \<^verbatim>\<open>undefined\<close>).
\<close>

record config =
  apiKey :: string
  baseUrl :: "string option"
  language :: "string option"
  currency :: "string option"
  timeout :: "int option"
  retries :: "int option"
  retryDelay :: "int option"

subsection \<open>The network and the trace of calls\<close>

text \<open>
  What one call of \<^verbatim>\<open>fetch\<close> does is the environment's choice: it rejects (connection
  failure, or the abort the timeout timer triggers), or it resolves with a response of
  some status, status text and body, where reading the body as JSON succeeds or rejects.
  \<open>future\<close> holds the outcomes of the calls still to come. \<open>trace\<close> records, in
  order, the calls the client makes to the URL encoder, to \<^verbatim>\<open>fetch\<close>, to the backoff
  timer and to the response schema.
\<close>

datatype json_outcome = JsonOk jsval | JsonRejects js_error

datatype fetch_outcome =
    FetchRejects js_error
  | FetchResponds nat string json_outcome

datatype event =
    Call_buildUrl string obj
  | Call_fetch string string "(string \<times> string) list" "int option"
  | Call_delay "int option"
  | Call_responseSchema jsval

record world =
  future :: "fetch_outcome stream"
  trace :: "event list"

definition log_event :: "event \<Rightarrow> world \<Rightarrow> world" where
  "log_event ev w = w\<lparr>trace := trace w @ [ev]\<rparr>"

fun is_fetch :: "event \<Rightarrow> bool" where
  "is_fetch (Call_fetch u m h t) = True"
| "is_fetch ev = False"

definition fetch_count :: "world \<Rightarrow> nat" where
  "fetch_count w = length (filter is_fetch (trace w))"

text \<open>A schema's \<^verbatim>\<open>parse\<close>: the parsed value, or the text of what it threw.\<close>

type_synonym 'a schema = "'a \<Rightarrow> string + 'a"

text \<open>What a rejected call throws; \<open>Thrown_undefined\<close> is \<^verbatim>\<open>throw undefined\<close>.\<close>

datatype thrown = Thrown js_error | Thrown_undefined

subsection \<open>Building the URL\<close>

text \<open>
  \<^verbatim>\<open>URLSearchParams.prototype.toString\<close> is the application/x-www-form-urlencoded
  serializer of the URL standard: a space becomes \<^verbatim>\<open>+\<close>, the bytes of
  \<^verbatim>\<open>*-._0-9A-Za-z\<close> stay, every other byte becomes \<^verbatim>\<open>%XX\<close>; name and value are joined
  by \<^verbatim>\<open>=\<close> and the pairs by \<^verbatim>\<open>&\<close>.
\<close>

definition hex_char :: "nat \<Rightarrow> char" where
  "hex_char d = ''0123456789ABCDEF'' ! (d mod 16)"

definition form_safe :: "char \<Rightarrow> bool" where
  "form_safe c =
     (c \<in> set ''*-._0123456789ABCDEFGHIJKLMNOPQRSTUVWXYZabcdefghijklmnopqrstuvwxyz'')"

definition form_encode_char :: "char \<Rightarrow> string" where
  "form_encode_char c =
     (if c = CHR '' '' then ''+''
      else if form_safe c then [c]
      else [CHR ''%'', hex_char (of_char c div 16), hex_char (of_char c mod 16)])"

definition form_encode :: "string \<Rightarrow> string" where
  "form_encode s = concat (map form_encode_char s)"

definition params_toString :: "(string \<times> string) list \<Rightarrow> string" where
  "params_toString ps = join ''&'' (map (\<lambda>(k, v). form_encode k @ ''='' @ form_encode v) ps)"

text \<open>\<^verbatim>\<open>${baseUrl}\<close> in the template literal.\<close>

definition template_string :: "string option \<Rightarrow> string" where
  "template_string s = (case s of None \<Rightarrow> ''undefined'' | Some t \<Rightarrow> t)"

text \<open>
  Calling \<^verbatim>\<open>value.toString()\<close> on a value that is neither \<^verbatim>\<open>undefined\<close> nor
  \<^verbatim>\<open>null\<close>: it prints what ToString prints, and throws where ToString throws.
\<close>

definition toString_call :: "jsval \<Rightarrow> js_error + string" where
  "toString_call v =
     (case ToString v of
        Some s \<Rightarrow> Inr s
      | None \<Rightarrow> Inl (case v of JObj kvs \<Rightarrow> not_a_function | _ \<Rightarrow> cannot_convert))"

text \<open>
  The \<^verbatim>\<open>forEach\<close> over the entries, on the list of parameters appended so far; a
  throwing callback ends it.
\<close>

fun append_params :: "(string \<times> string) list \<Rightarrow> obj \<Rightarrow> js_error + (string \<times> string) list" where
  "append_params params [] = Inr params"
| "append_params params (kv # rest) =
     (if snd kv \<noteq> JUndefined \<and> snd kv \<noteq> JNull then
        (case toString_call (snd kv) of
           Inl e \<Rightarrow> Inl e
         | Inr s \<Rightarrow> append_params (params @ [(fst kv, s)]) rest)
      else append_params params rest)"

definition buildUrl :: "config \<Rightarrow> string \<Rightarrow> obj \<Rightarrow> js_error + string" where
  "buildUrl cfg endpoint payload =
     (let params = [(''key'', apiKey cfg)]
      in case append_params params payload of
           Inl e \<Rightarrow> Inl e
         | Inr params \<Rightarrow>
             Inr (template_string (baseUrl cfg) @ endpoint @ ''?'' @ params_toString params))"

subsection \<open>Headers\<close>

text \<open>Writing one property of an object: in place if the key exists, at the end if not.\<close>

fun put :: "(string \<times> 'a) list \<Rightarrow> string \<Rightarrow> 'a \<Rightarrow> (string \<times> 'a) list" where
  "put [] k v = [(k, v)]"
| "put (p # ps) k v = (if fst p = k then (k, v) # ps else p # put ps k v)"

definition buildHeaders :: "(string \<times> string) list \<Rightarrow> (string \<times> string) list" where
  "buildHeaders customHeaders =
     foldl (\<lambda>acc kv. put acc (fst kv) (snd kv))
       [(''Accept'', ''application/json''), (''Content-Type'', ''application/json'')]
       customHeaders"

subsection \<open>One request\<close>

definition response_ok :: "nat \<Rightarrow> bool" where
  "response_ok status = (200 \<le> status \<and> status \<le> 299)"

definition http_error :: "nat \<Rightarrow> string \<Rightarrow> js_error" where
  "http_error status statusText =
     PlainError ''Error'' (''HTTP '' @ show_nat status @ '': '' @ statusText)"

text \<open>
  \<^verbatim>\<open>sendRequest\<close>: one call of \<^verbatim>\<open>fetch\<close>; a rejection is rethrown as it is, a response
  that is not \<^verbatim>\<open>ok\<close> throws a plain \<^verbatim>\<open>Error\<close>, any other response is returned (here:
  what reading its body will give).
\<close>

definition sendRequest ::
  "string \<Rightarrow> string \<Rightarrow> (string \<times> string) list \<Rightarrow> int option \<Rightarrow> world
     \<Rightarrow> (js_error + json_outcome) \<times> world" where
  "sendRequest url meth hdrs tmo w =
     (let w' = \<lparr>future = stl (future w), trace = trace w @ [Call_fetch url meth hdrs tmo]\<rparr>
      in case shd (future w) of
           FetchRejects e \<Rightarrow> (Inl e, w')
         | FetchResponds status statusText body \<Rightarrow>
             if \<not> response_ok status then (Inl (http_error status statusText), w')
             else (Inr body, w'))"

text \<open>
  The \<^verbatim>\<open>try\<close> block of \<^verbatim>\<open>sendWithRetry\<close>: send, read the body, test for an API error,
  validate. \<open>Inl\<close> is what the \<^verbatim>\<open>catch\<close> clause receives.
\<close>

definition attempt ::
  "string \<Rightarrow> string \<Rightarrow> (string \<times> string) list \<Rightarrow> jsval schema \<Rightarrow> int option \<Rightarrow> world
     \<Rightarrow> (js_error + jsval) \<times> world" where
  "attempt url meth hdrs responseSchema tmo w =
     (case sendRequest url meth hdrs tmo w of
        (Inl e, w1) \<Rightarrow> (Inl e, w1)
      | (Inr response, w1) \<Rightarrow>
          (case response of
             JsonRejects e \<Rightarrow> (Inl e, w1)
           | JsonOk data \<Rightarrow>
               if isApiError data then (Inl (raised (fromApiResponse data)), w1)
               else
                 (case responseSchema data of
                    Inr v \<Rightarrow> (Inr v, log_event (Call_responseSchema data) w1)
                  | Inl zerr \<Rightarrow>
                      (Inl (ValidationError (''Invalid response format: '' @ zerr)),
                       log_event (Call_responseSchema data) w1))))"

text \<open>\<^verbatim>\<open>retryDelay * Math.pow(2, attempt)\<close>; an undefined delay gives \<^verbatim>\<open>NaN\<close>.\<close>

definition backoff :: "int option \<Rightarrow> int \<Rightarrow> int option" where
  "backoff delay n = map_option (\<lambda>d. d * 2 ^ nat n) delay"

text \<open>
  The \<^verbatim>\<open>for\<close> loop of \<^verbatim>\<open>sendWithRetry\<close> from \<open>n\<close> on; \<open>lastError\<close> is the variable
  of that name, \<open>None\<close> while unassigned. Both \<^verbatim>\<open>break\<close>s lead to \<^verbatim>\<open>throw lastError\<close>.
\<close>

function sendWithRetry_loop ::
  "string \<Rightarrow> string \<Rightarrow> (string \<times> string) list \<Rightarrow> jsval schema \<Rightarrow> int \<Rightarrow> int option
     \<Rightarrow> int option \<Rightarrow> int \<Rightarrow> js_error option \<Rightarrow> world \<Rightarrow> (thrown + jsval) \<times> world" where
  "sendWithRetry_loop url meth hdrs responseSchema rts delay tmo n lastError w =
     (if n \<le> rts then
        (case attempt url meth hdrs responseSchema tmo w of
           (Inr v, w1) \<Rightarrow> (Inr v, w1)
         | (Inl e, w1) \<Rightarrow>
             if n = rts then (Inl (Thrown e), w1)
             else if \<not> isRetryableError e then (Inl (Thrown e), w1)
             else sendWithRetry_loop url meth hdrs responseSchema rts delay tmo (n + 1)
                    (Some e) (log_event (Call_delay (backoff delay n)) w1))
      else (Inl (case lastError of None \<Rightarrow> Thrown_undefined | Some e \<Rightarrow> Thrown e), w))"
  by pat_completeness auto
termination
  by (relation "measure (\<lambda>(url, meth, hdrs, responseSchema, rts, delay, tmo, n, lastError, w).
        nat (rts + 1 - n))") auto

declare sendWithRetry_loop.simps [simp del]

text \<open>
  \<^verbatim>\<open>sendWithRetry\<close>. With \<^verbatim>\<open>retries\<close> undefined the loop test \<^verbatim>\<open>0 <= undefined\<close> is false
  at once, and the unassigned \<^verbatim>\<open>lastError\<close> is thrown.
\<close>

definition sendWithRetry ::
  "string \<Rightarrow> string \<Rightarrow> (string \<times> string) list \<Rightarrow> jsval schema \<Rightarrow> int option \<Rightarrow> int option
     \<Rightarrow> int option \<Rightarrow> world \<Rightarrow> (thrown + jsval) \<times> world" where
  "sendWithRetry url meth hdrs responseSchema rts delay tmo w =
     (case rts of
        None \<Rightarrow> (Inl Thrown_undefined, w)
      | Some r \<Rightarrow> sendWithRetry_loop url meth hdrs responseSchema r delay tmo 0 None w)"

record request_options =
  opt_method :: "string option"
  opt_headers :: "(string \<times> string) list option"
  opt_timeout :: "int option"
  opt_retries :: "int option"
  opt_retryDelay :: "int option"

text \<open>A destructuring default: used when the option is \<^verbatim>\<open>undefined\<close>.\<close>

definition or_default :: "'a option \<Rightarrow> 'a option \<Rightarrow> 'a option" where
  "or_default v d = (case v of None \<Rightarrow> d | Some x \<Rightarrow> Some x)"

definition request ::
  "config \<Rightarrow> string \<Rightarrow> obj \<Rightarrow> obj schema \<Rightarrow> jsval schema \<Rightarrow> request_options \<Rightarrow> world
     \<Rightarrow> (thrown + jsval) \<times> world" where
  "request cfg endpoint payload payloadSchema responseSchema options w =
     (let meth = (case opt_method options of None \<Rightarrow> ''GET'' | Some m \<Rightarrow> m);
          hdrs = (case opt_headers options of None \<Rightarrow> [] | Some h \<Rightarrow> h);
          tmo = or_default (opt_timeout options) (timeout cfg);
          rts = or_default (opt_retries options) (retries cfg);
          delay = or_default (opt_retryDelay options) (retryDelay cfg)
      in case payloadSchema payload of
           Inl zerr \<Rightarrow> (Inl (Thrown (ValidationError (''Invalid request payload: '' @ zerr))), w)
         | Inr validatedPayload \<Rightarrow>
             (let w1 = log_event (Call_buildUrl endpoint validatedPayload) w
              in case buildUrl cfg endpoint validatedPayload of
                   Inl e \<Rightarrow> (Inl (Thrown e), w1)
                 | Inr url \<Rightarrow>
                     (let requestHeaders = buildHeaders hdrs
                      in sendWithRetry url meth requestHeaders responseSchema rts delay tmo w1)))"


section \<open>The configuration manager (config.ts)\<close>

text \<open>
  A \<^verbatim>\<open>Partial<TripAdvisorConfig>\<close>: each key is absent, or present with a value that may
  be \<^verbatim>\<open>undefined\<close> (\<open>Present None\<close>). An object spread copies the present keys, also
  those whose value is \<^verbatim>\<open>undefined\<close>.
\<close>

datatype 'a field = Absent | Present "'a option"

fun field_value :: "'a field \<Rightarrow> 'a option" where
  "field_value Absent = None"
| "field_value (Present v) = v"

record partial_config =
  p_apiKey :: "string field"
  p_baseUrl :: "string field"
  p_language :: "string field"
  p_currency :: "string field"
  p_timeout :: "int field"
  p_retries :: "int field"
  p_retryDelay :: "int field"

definition DEFAULT_CONFIG :: partial_config where
  "DEFAULT_CONFIG =
     \<lparr>p_apiKey = Absent,
      p_baseUrl = Present (Some ''https://api.content.tripadvisor.com/api/v1''),
      p_language = Present (Some ''en''),
      p_currency = Present (Some ''USD''),
      p_timeout = Present (Some 30000),
      p_retries = Present (Some 3),
      p_retryDelay = Present (Some 1000)\<rparr>"

text \<open>One key of \<^verbatim>\<open>{...a, ...b}\<close>.\<close>

fun over :: "'a field \<Rightarrow> 'a field \<Rightarrow> 'a field" where
  "over a Absent = a"
| "over a (Present v) = Present v"

definition spread :: "partial_config \<Rightarrow> partial_config \<Rightarrow> partial_config" where
  "spread a b =
     \<lparr>p_apiKey = over (p_apiKey a) (p_apiKey b),
      p_baseUrl = over (p_baseUrl a) (p_baseUrl b),
      p_language = over (p_language a) (p_language b),
      p_currency = over (p_currency a) (p_currency b),
      p_timeout = over (p_timeout a) (p_timeout b),
      p_retries = over (p_retries a) (p_retries b),
      p_retryDelay = over (p_retryDelay a) (p_retryDelay b)\<rparr>"

text \<open>The stored object as the source of a spread: every key present.\<close>

definition as_partial :: "config \<Rightarrow> partial_config" where
  "as_partial c =
     \<lparr>p_apiKey = Present (Some (apiKey c)),
      p_baseUrl = Present (baseUrl c),
      p_language = Present (language c),
      p_currency = Present (currency c),
      p_timeout = Present (timeout c),
      p_retries = Present (retries c),
      p_retryDelay = Present (retryDelay c)\<rparr>"

text \<open>\<^verbatim>\<open>a || b\<close> on strings that may be undefined.\<close>

definition or_else :: "string option \<Rightarrow> string option \<Rightarrow> string option" where
  "or_else a b = (case a of Some (c # cs) \<Rightarrow> a | _ \<Rightarrow> b)"

definition key_required :: string where
  "key_required = ''TripAdvisor API key is required. Set TRIPADVISOR_API_KEY environment variable or pass apiKey in config.''"

text \<open>
  \<open>env\<close> is \<^verbatim>\<open>process.env.TRIPADVISOR_API_KEY\<close>; the argument is \<open>None\<close> when the
  constructor is called without one.
\<close>

definition validateAndMergeConfig :: "string option \<Rightarrow> partial_config option \<Rightarrow> js_error + config" where
  "validateAndMergeConfig env cfg =
     (let key = or_else (case cfg of None \<Rightarrow> None | Some c \<Rightarrow> field_value (p_apiKey c)) env
      in case key of
           Some (c # cs) \<Rightarrow>
             (let merged = (case cfg of None \<Rightarrow> DEFAULT_CONFIG | Some p \<Rightarrow> spread DEFAULT_CONFIG p)
              in Inr \<lparr>apiKey = c # cs,
                      baseUrl = field_value (p_baseUrl merged),
                      language = field_value (p_language merged),
                      currency = field_value (p_currency merged),
                      timeout = field_value (p_timeout merged),
                      retries = field_value (p_retries merged),
                      retryDelay = field_value (p_retryDelay merged)\<rparr>)
         | _ \<Rightarrow> Inl (ConfigurationError key_required))"

text \<open>
  Objects live in a heap, addressed by their position; a new object is appended. The
  manager's one field \<^verbatim>\<open>this.config\<close> is a reference into it. A reference a
  constructor returned is never dangling, which the theorems assume as
  \<open>config_ref m < length h\<close>.
\<close>

type_synonym heap = "config list"

record manager =
  config_ref :: nat

definition new_ConfigManager :: "string option \<Rightarrow> partial_config option \<Rightarrow> heap \<Rightarrow> (js_error + manager) \<times> heap" where
  "new_ConfigManager env cfg h =
     (case validateAndMergeConfig env cfg of
        Inl e \<Rightarrow> (Inl e, h)
      | Inr c \<Rightarrow> (Inr \<lparr>config_ref = length h\<rparr>, h @ [c]))"

text \<open>\<^verbatim>\<open>getConfig\<close> returns the address of a fresh object holding \<^verbatim>\<open>{...this.config}\<close>.\<close>

definition getConfig :: "manager \<Rightarrow> heap \<Rightarrow> nat \<times> heap" where
  "getConfig m h = (length h, h @ [h ! config_ref m])"

definition updateConfig :: "string option \<Rightarrow> partial_config \<Rightarrow> manager \<Rightarrow> heap \<Rightarrow> (js_error + unit) \<times> manager \<times> heap" where
  "updateConfig env updates m h =
     (case validateAndMergeConfig env (Some (spread (as_partial (h ! config_ref m)) updates)) of
        Inl e \<Rightarrow> (Inl e, m, h)
      | Inr c \<Rightarrow> (Inr (), m\<lparr>config_ref := length h\<rparr>, h @ [c]))"

definition getApiKey :: "manager \<Rightarrow> heap \<Rightarrow> string" where
  "getApiKey m h = apiKey (h ! config_ref m)"

text \<open>A caller assigning to properties of the object at address \<open>a\<close>, leaving it as \<open>c\<close>.\<close>

definition assign_object :: "nat \<Rightarrow> config \<Rightarrow> heap \<Rightarrow> heap" where
  "assign_object a c h = h[a := c]"


section \<open>Notions used to state the properties\<close>

text \<open>
  What the \<^verbatim>\<open>try\<close> block yields as a function of what \<^verbatim>\<open>fetch\<close> did; \<open>attempt_fst\<close>
  below shows it is the result of \<open>attempt\<close>.
\<close>

definition outcome_result :: "jsval schema \<Rightarrow> fetch_outcome \<Rightarrow> js_error + jsval" where
  "outcome_result responseSchema oc =
     (case oc of
        FetchRejects e \<Rightarrow> Inl e
      | FetchResponds status statusText body \<Rightarrow>
          if \<not> response_ok status then Inl (http_error status statusText)
          else
            (case body of
               JsonRejects e \<Rightarrow> Inl e
             | JsonOk data \<Rightarrow>
                 if isApiError data then Inl (raised (fromApiResponse data))
                 else
                   (case responseSchema data of
                      Inr v \<Rightarrow> Inr v
                    | Inl zerr \<Rightarrow> Inl (ValidationError (''Invalid response format: '' @ zerr)))))"

text \<open>Concrete inputs for the examples.\<close>

definition example_config :: config where
  "example_config =
     \<lparr>apiKey = ''k1'', baseUrl = Some ''https://api.example/v1'', language = Some ''en'',
      currency = Some ''USD'', timeout = Some 30000, retries = Some 3, retryDelay = Some 1000\<rparr>"

definition accept_any :: "'a schema" where
  "accept_any v = Inr v"

definition no_options :: request_options where
  "no_options = \<lparr>opt_method = None, opt_headers = None, opt_timeout = None,
     opt_retries = None, opt_retryDelay = None\<rparr>"

definition ok_json :: "jsval \<Rightarrow> fetch_outcome" where
  "ok_json body = FetchResponds 200 ''OK'' (JsonOk body)"


definition no_updates :: partial_config where
  "no_updates = \<lparr>p_apiKey = Absent, p_baseUrl = Absent, p_language = Absent, p_currency = Absent,
     p_timeout = Absent, p_retries = Absent, p_retryDelay = Absent\<rparr>"

subsection \<open>Shapes\<close>

text \<open>
  Modelled from the spec: the shape validator behind \<^verbatim>\<open>payloadSchema.parse\<close> is the zod
  library, whose code is not in the repository. Section 4.2 of the specification: a
  shape enumerates field names, each with a type and a required, optional or default
  marking; a missing required field fails, a type mismatch fails, a declared default is
  applied when the field is absent, and unknown fields pass through unchanged.
  A field is absent when the object has no such key or holds \<^verbatim>\<open>undefined\<close> there.
\<close>

datatype ftype = TString | TNumber | TBoolean | TAny

datatype marking = Required | Optional | Default jsval

type_synonym shape = "(string \<times> ftype \<times> marking) list"

fun has_type :: "ftype \<Rightarrow> jsval \<Rightarrow> bool" where
  "has_type TString (JStr s) = True"
| "has_type TNumber (JNum n) = True"
| "has_type TBoolean (JBool b) = True"
| "has_type TAny v = True"
| "has_type t v = False"

definition absent :: "obj \<Rightarrow> string \<Rightarrow> bool" where
  "absent v f = (get_prop (JObj v) f = JUndefined)"

fun check_field :: "obj \<Rightarrow> string \<times> ftype \<times> marking \<Rightarrow> string option" where
  "check_field v (f, ty, mk) =
     (if absent v f then (if mk = Required then Some (f @ '': Required'') else None)
      else if has_type ty (get_prop (JObj v) f) then None
      else Some (f @ '': Invalid type''))"

fun apply_default :: "obj \<Rightarrow> string \<times> ftype \<times> marking \<Rightarrow> obj" where
  "apply_default v (f, ty, Default d) = (if absent v f then put v f d else v)"
| "apply_default v (f, ty, mk) = v"

definition validate_shape :: "shape \<Rightarrow> obj schema" where
  "validate_shape sh v =
     (case List.map_filter (check_field v) sh of
        [] \<Rightarrow> Inr (foldl apply_default v sh)
      | e # es \<Rightarrow> Inl e)"

definition missing_required :: "shape \<Rightarrow> obj \<Rightarrow> bool" where
  "missing_required sh v = list_ex (\<lambda>fs. snd (snd fs) = Required \<and> absent v (fst fs)) sh"

section \<open>Properties of one attempt and of the retry loop\<close>

lemma attempt_fst: "fst (attempt url meth hdrs rs tmo w) = outcome_result rs (shd (future w))"
  by (simp add: attempt_def sendRequest_def outcome_result_def Let_def
      split: fetch_outcome.splits json_outcome.splits sum.splits)

lemma attempt_future: "future (snd (attempt url meth hdrs rs tmo w)) = stl (future w)"
  by (simp add: attempt_def sendRequest_def Let_def log_event_def
      split: fetch_outcome.splits json_outcome.splits sum.splits)

lemma attempt_fetch_count:
  "fetch_count (snd (attempt url meth hdrs rs tmo w)) = Suc (fetch_count w)"
  by (simp add: attempt_def sendRequest_def Let_def log_event_def fetch_count_def
      split: fetch_outcome.splits json_outcome.splits sum.splits)

lemma log_event_future: "future (log_event ev w) = future w"
  by (simp add: log_event_def)

lemma log_delay_fetch_count: "fetch_count (log_event (Call_delay d) w) = fetch_count w"
  by (simp add: log_event_def fetch_count_def)

lemma loop_all_retryable:
  assumes "n \<le> rts"
    and "\<forall>i\<le>nat (rts - n). \<exists>e. outcome_result rs (future w !! i) = Inl e \<and> isRetryableError e"
  shows "\<exists>e w'. sendWithRetry_loop url meth hdrs rs rts delay tmo n le w = (Inl (Thrown e), w')
           \<and> outcome_result rs (future w !! nat (rts - n)) = Inl e
           \<and> fetch_count w' = fetch_count w + nat (rts - n) + 1"
  using assms
proof (induction url meth hdrs rs rts delay tmo n le w rule: sendWithRetry_loop.induct)
  case (1 url meth hdrs rs rts delay tmo n le w)
  obtain r w1 where a: "attempt url meth hdrs rs tmo w = (r, w1)"
    by (cases "attempt url meth hdrs rs tmo w")
  from "1.prems"(2) obtain e0 where e0: "outcome_result rs (shd (future w)) = Inl e0" "isRetryableError e0"
    by (metis le0 snth.simps(1))
  from a attempt_fst [of url meth hdrs rs tmo w] e0 have r: "r = Inl e0" by simp
  show ?case
  proof (cases "n = rts")
    case True
    with a r e0 attempt_fetch_count [of url meth hdrs rs tmo w] show ?thesis
      by (subst sendWithRetry_loop.simps) simp
  next
    case False
    with "1.prems" have lt: "n < rts" by simp
    let ?w2 = "log_event (Call_delay (backoff delay n)) w1"
    have fut: "future ?w2 = stl (future w)"
      using a attempt_future [of url meth hdrs rs tmo w] by (simp add: log_event_future)
    have cnt: "fetch_count ?w2 = Suc (fetch_count w)"
      using a attempt_fetch_count [of url meth hdrs rs tmo w] by (simp add: log_delay_fetch_count)
    have k: "nat (rts - n) = Suc (nat (rts - (n + 1)))" using lt by simp
    have hyp: "\<forall>i\<le>nat (rts - (n + 1)). \<exists>e. outcome_result rs (future ?w2 !! i) = Inl e \<and> isRetryableError e"
    proof (intro allI impI)
      fix i assume "i \<le> nat (rts - (n + 1))"
      then have "Suc i \<le> nat (rts - n)" using k by simp
      with "1.prems"(2) have "\<exists>e. outcome_result rs (future w !! Suc i) = Inl e \<and> isRetryableError e" by blast
      then show "\<exists>e. outcome_result rs (future ?w2 !! i) = Inl e \<and> isRetryableError e"
        by (simp add: fut)
    qed
    from "1.IH" [OF "1.prems"(1) a [symmetric] r False _ _ hyp] e0 lt
    obtain e w' where
      "sendWithRetry_loop url meth hdrs rs rts delay tmo (n + 1) (Some e0) ?w2 = (Inl (Thrown e), w')"
      "outcome_result rs (future ?w2 !! nat (rts - (n + 1))) = Inl e"
      "fetch_count w' = fetch_count ?w2 + nat (rts - (n + 1)) + 1"
      by auto
    with a r e0 False lt cnt fut k show ?thesis
      by (subst sendWithRetry_loop.simps) simp
  qed
qed

lemma append_params_rendered:
  assumes "those (map (\<lambda>kv. map_option (Pair (fst kv)) (ToString (snd kv)))
             (filter (\<lambda>kv. snd kv \<noteq> JUndefined \<and> snd kv \<noteq> JNull) payload)) = Some qs"
  shows "append_params ps payload = Inr (ps @ qs)"
  using assms
proof (induction payload arbitrary: ps qs)
  case Nil
  then show ?case by simp
next
  case (Cons kv rest)
  show ?case
  proof (cases "snd kv \<noteq> JUndefined \<and> snd kv \<noteq> JNull")
    case False
    with Cons show ?thesis by auto
  next
    case True
    with Cons.prems obtain s qs' where s: "ToString (snd kv) = Some s"
      and r: "those (map (\<lambda>kv. map_option (Pair (fst kv)) (ToString (snd kv)))
             (filter (\<lambda>kv. snd kv \<noteq> JUndefined \<and> snd kv \<noteq> JNull) rest)) = Some qs'"
      and q: "qs = (fst kv, s) # qs'"
      by (auto split: option.splits)
    from Cons.IH [OF r] have "append_params (ps @ [(fst kv, s)]) rest = Inr ((ps @ [(fst kv, s)]) @ qs')" .
    with True s q show ?thesis by (simp add: toString_call_def)
  qed
qed

lemma toString_call_error:
  "toString_call v = Inl e \<Longrightarrow> e = not_a_function \<or> e = cannot_convert"
  by (auto simp: toString_call_def split: option.splits jsval.splits)

lemma append_params_error:
  "append_params ps payload = Inl e \<Longrightarrow> e = not_a_function \<or> e = cannot_convert"
proof (induction payload arbitrary: ps)
  case Nil
  then show ?case by simp
next
  case (Cons kv rest)
  then show ?case
    by (auto split: if_splits sum.splits dest: toString_call_error)
qed

lemma append_params_unrendered:
  assumes "those (map (\<lambda>kv. map_option (Pair (fst kv)) (ToString (snd kv)))
             (filter (\<lambda>kv. snd kv \<noteq> JUndefined \<and> snd kv \<noteq> JNull) payload)) = None"
  shows "\<exists>e. append_params ps payload = Inl e"
  using assms
proof (induction payload arbitrary: ps)
  case Nil
  then show ?case by simp
next
  case (Cons kv rest)
  show ?case
  proof (cases "snd kv \<noteq> JUndefined \<and> snd kv \<noteq> JNull")
    case False
    with Cons show ?thesis by auto
  next
    case True
    show ?thesis
    proof (cases "ToString (snd kv)")
      case None
      with True show ?thesis by (simp add: toString_call_def)
    next
      case (Some s)
      with True Cons.prems
      have "those (map (\<lambda>kv. map_option (Pair (fst kv)) (ToString (snd kv)))
             (filter (\<lambda>kv. snd kv \<noteq> JUndefined \<and> snd kv \<noteq> JNull) rest)) = None"
        by (auto split: option.splits)
      from Cons.IH [OF this] obtain e where "append_params (ps @ [(fst kv, s)]) rest = Inl e" by blast
      with True Some show ?thesis by (simp add: toString_call_def)
    qed
  qed
qed

lemma buildUrl_error:
  "buildUrl cfg endpoint payload = Inl e \<Longrightarrow> e = not_a_function \<or> e = cannot_convert"
  by (auto simp: buildUrl_def Let_def split: sum.splits dest: append_params_error)

lemmas form_simps =
  params_toString_def form_encode_def form_encode_char_def form_safe_def hex_char_def

section \<open>URL building, classification of bodies and exhausted retries\<close>

text \<open>
  C5, as stated, gives an encoded URL for every validated parameter object. A value
  such as \<^verbatim>\<open>{toString: 1}\<close> has no string representation: \<^verbatim>\<open>value.toString()\<close> throws a
  TypeError, and \<^verbatim>\<open>buildUrl\<close> with it.
\<close>

theorem unprintable_parameter_counterexample:
  "buildUrl example_config ''/location/search''
     [(''searchQuery'', JObj [(''toString'', JNum ''1'')])] = Inl not_a_function"
  by (simp add: buildUrl_def toString_call_def)

text \<open>
  C5, amended. For every base address, endpoint path, credential and validated
  parameter object in which every value that is neither \<^verbatim>\<open>undefined\<close> nor \<^verbatim>\<open>null\<close> has a
  string representation, the URL \<^verbatim>\<open>buildUrl\<close> returns is base + path, a question mark,
  and the serialised query whose first argument is the credential under the key
  \<^verbatim>\<open>key\<close>, followed by exactly the parameters whose value is neither \<^verbatim>\<open>undefined\<close> nor
  \<^verbatim>\<open>null\<close>, each rendered by its string representation, in the order of the object's
  fields. A parameter that is \<^verbatim>\<open>undefined\<close> or \<^verbatim>\<open>null\<close> contributes no query key. Where
  one of the remaining values has no string representation, \<^verbatim>\<open>buildUrl\<close> throws the
  TypeError of its \<^verbatim>\<open>toString()\<close> and no URL is built.
\<close>

theorem buildUrl_query:
  assumes "baseUrl cfg = Some base"
  shows "case those (map (\<lambda>kv. map_option (Pair (fst kv)) (ToString (snd kv)))
                (filter (\<lambda>kv. snd kv \<noteq> JUndefined \<and> snd kv \<noteq> JNull) payload)) of
           Some ps \<Rightarrow>
             buildUrl cfg endpoint payload =
               Inr (base @ endpoint @ ''?'' @ params_toString ((''key'', apiKey cfg) # ps))
         | None \<Rightarrow>
             buildUrl cfg endpoint payload = Inl not_a_function \<or>
             buildUrl cfg endpoint payload = Inl cannot_convert"
proof (cases "those (map (\<lambda>kv. map_option (Pair (fst kv)) (ToString (snd kv)))
                (filter (\<lambda>kv. snd kv \<noteq> JUndefined \<and> snd kv \<noteq> JNull) payload))")
  case None
  from append_params_unrendered [OF None, of "[(''key'', apiKey cfg)]"]
  obtain e where e: "append_params [(''key'', apiKey cfg)] payload = Inl e" by blast
  then have "buildUrl cfg endpoint payload = Inl e" by (simp add: buildUrl_def)
  with buildUrl_error [of cfg endpoint payload e] None show ?thesis by auto
next
  case (Some ps)
  from append_params_rendered [OF Some, of "[(''key'', apiKey cfg)]"] assms Some
  show ?thesis by (simp add: buildUrl_def template_string_def)
qed

theorem buildUrl_query_witness:
  "buildUrl example_config ''/location/search''
     [(''searchQuery'', JStr ''Paris''), (''category'', JUndefined), (''phone'', JNull),
      (''language'', JStr ''en'')]
   = Inr ''https://api.example/v1/location/search?key=k1&searchQuery=Paris&language=en''"
  using buildUrl_query [of example_config "''https://api.example/v1''" "''/location/search''"
      "[(''searchQuery'', JStr ''Paris''), (''category'', JUndefined), (''phone'', JNull),
        (''language'', JStr ''en'')]"]
  by (simp add: example_config_def form_simps)

text \<open>
  C10. API-error classification tests the truthiness of \<^verbatim>\<open>error\<close> and \<^verbatim>\<open>Message\<close>,
  not their presence: a successfully transported body whose \<^verbatim>\<open>error\<close> is absent or
  falsy and whose \<^verbatim>\<open>Message\<close> is falsy is not classified as an API error; it is handed
  to the response schema, whose verdict is the attempt's result.
\<close>

theorem falsy_envelope_is_payload:
  assumes "shd (future w) = FetchResponds status statusText (JsonOk body)"
    and "response_ok status"
    and "\<not> truthy (get_prop body ''error'')"
    and "\<not> truthy (get_prop body ''Message'')"
  shows "\<not> isApiError body \<and>
         attempt url meth hdrs rs tmo w =
           (case rs body of
              Inr v \<Rightarrow> Inr v
            | Inl zerr \<Rightarrow> Inl (ValidationError (''Invalid response format: '' @ zerr)),
            \<lparr>future = stl (future w),
             trace = trace w @ [Call_fetch url meth hdrs tmo, Call_responseSchema body]\<rparr>)"
  using assms
  by (simp add: isApiError_def attempt_def sendRequest_def log_event_def split: sum.splits)

theorem falsy_envelope_is_payload_witness:
  "\<not> isApiError (JObj [(''Message'', JStr [])]) \<and>
   attempt ''u'' ''GET'' [] accept_any (Some 30000)
       \<lparr>future = sconst (ok_json (JObj [(''Message'', JStr [])])), trace = []\<rparr> =
     (Inr (JObj [(''Message'', JStr [])]),
      \<lparr>future = sconst (ok_json (JObj [(''Message'', JStr [])])),
       trace = [Call_fetch ''u'' ''GET'' [] (Some 30000),
                Call_responseSchema (JObj [(''Message'', JStr [])])]\<rparr>)"
  using falsy_envelope_is_payload [of
      "\<lparr>future = sconst (ok_json (JObj [(''Message'', JStr [])])), trace = []\<rparr>"
      200 "''OK''" "JObj [(''Message'', JStr [])]" "''u''" "''GET''" "[]" accept_any "Some 30000"]
  by (simp add: ok_json_def response_ok_def accept_any_def)

text \<open>
  What the retry loop does when every attempt fails with an error the classifier
  \<^verbatim>\<open>isRetryableError\<close> accepts: \<^verbatim>\<open>fetch\<close> is called \<open>N + 1\<close> times and the error thrown is
  the error of the last attempt alone.
\<close>

lemma retries_exhausted:
  assumes "0 \<le> N"
    and "\<forall>i\<le>nat N. \<exists>e. outcome_result rs (future w !! i) = Inl e \<and> isRetryableError e"
  shows "\<exists>e w'. sendWithRetry url meth hdrs rs (Some N) delay tmo w = (Inl (Thrown e), w')
           \<and> outcome_result rs (future w !! nat N) = Inl e
           \<and> fetch_count w' = fetch_count w + nat N + 1"
  using loop_all_retryable [of 0 N rs w url meth hdrs delay tmo None] assms
  by (simp add: sendWithRetry_def)

lemma retries_exhausted_example:
  "\<exists>e w'. sendWithRetry ''u'' ''GET'' [] accept_any (Some 2) (Some 10) (Some 30000)
             \<lparr>future = sconst (FetchRejects (PlainError ''Error'' ''network error'')), trace = []\<rparr>
           = (Inl (Thrown e), w')
      \<and> outcome_result accept_any
          (future \<lparr>future = sconst (FetchRejects (PlainError ''Error'' ''network error'')), trace = []\<rparr> !! nat 2)
        = Inl e
      \<and> fetch_count w' =
          fetch_count \<lparr>future = sconst (FetchRejects (PlainError ''Error'' ''network error'')), trace = []\<rparr>
            + nat 2 + 1"
proof -
  have r: "isRetryableError (PlainError ''Error'' ''network error'')"
    by (simp add: isRetryableError_def starts_with_def)
  have h: "\<forall>i\<le>nat 2. \<exists>e. outcome_result accept_any
      (future \<lparr>future = sconst (FetchRejects (PlainError ''Error'' ''network error'')), trace = []\<rparr> !! i) = Inl e
       \<and> isRetryableError e"
    using r by (simp add: outcome_result_def)
  show ?thesis
    by (rule retries_exhausted [OF _ h]) simp
qed

section \<open>Properties of the configuration manager\<close>

lemma validateAndMergeConfig_key:
  "validateAndMergeConfig env cfg = Inr c \<Longrightarrow> apiKey c \<noteq> []"
  by (auto simp: validateAndMergeConfig_def Let_def split: option.splits list.splits)

lemma validateAndMergeConfig_error:
  "validateAndMergeConfig env cfg = Inl e \<Longrightarrow> e = ConfigurationError key_required"
  by (auto simp: validateAndMergeConfig_def Let_def split: option.splits list.splits)

lemma validate_empty_key_no_env:
  assumes "env = None \<or> env = Some []" and "p_apiKey updates = Present (Some [])"
  shows "validateAndMergeConfig env (Some (spread (as_partial c) updates))
           = Inl (ConfigurationError key_required)"
  using assms by (auto simp: validateAndMergeConfig_def spread_def or_else_def)

text \<open>
  C9. \<^verbatim>\<open>getConfig\<close> returns an independent copy, never the live object: the address it
  returns is not the stored object's, the copy has the stored contents, and whatever a
  caller then assigns to the copy (leaving it as any \<open>c\<close>), the stored configuration,
  \<^verbatim>\<open>getApiKey\<close> and every later \<^verbatim>\<open>getConfig\<close> are as before.
\<close>

theorem getConfig_returns_copy:
  assumes "config_ref m < length h" and "getConfig m h = (a, h1)"
  shows "a \<noteq> config_ref m \<and> h1 ! a = h ! config_ref m
         \<and> assign_object a c h1 ! config_ref m = h ! config_ref m
         \<and> getApiKey m (assign_object a c h1) = getApiKey m h
         \<and> snd (getConfig m (assign_object a c h1)) ! fst (getConfig m (assign_object a c h1))
             = h ! config_ref m"
  using assms
  by (auto simp: getConfig_def assign_object_def getApiKey_def nth_append nth_list_update)

theorem getConfig_returns_copy_witness:
  "getConfig \<lparr>config_ref = 0\<rparr> [example_config] = (1, [example_config, example_config])
   \<and> assign_object 1 (example_config\<lparr>apiKey := ''modified''\<rparr>) [example_config, example_config] ! 0
       = example_config
   \<and> getApiKey \<lparr>config_ref = 0\<rparr>
       (assign_object 1 (example_config\<lparr>apiKey := ''modified''\<rparr>) [example_config, example_config])
       = ''k1''"
  using getConfig_returns_copy [of "\<lparr>config_ref = 0\<rparr>" "[example_config]" 1
      "[example_config, example_config]" "example_config\<lparr>apiKey := ''modified''\<rparr>"]
  by (simp add: getConfig_def getApiKey_def example_config_def)

text \<open>
  What holds of construction and update whatever the environment: after a successful
  construction or update the stored credential is non-empty; an update either stores
  the validated merge of the old configuration and the updates, or throws the
  ConfigurationError and leaves manager and heap as they were, so that \<^verbatim>\<open>getConfig\<close>
  still returns the old configuration; and with the environment variable unset or
  empty, an update with an empty key throws.
\<close>

lemma credential_nonempty_and_update_atomic:
  "(new_ConfigManager env cfg h = (Inr m1, h1) \<longrightarrow> getApiKey m1 h1 \<noteq> [])
   \<and> (case updateConfig env updates m h of
         (Inr u, m', h') \<Rightarrow>
            getApiKey m' h' \<noteq> [] \<and>
            validateAndMergeConfig env (Some (spread (as_partial (h ! config_ref m)) updates))
              = Inr (h' ! config_ref m')
       | (Inl e, m', h') \<Rightarrow>
            e = ConfigurationError key_required \<and> m' = m \<and> h' = h \<and>
            snd (getConfig m' h') ! fst (getConfig m' h') = h ! config_ref m)
   \<and> ((env = None \<or> env = Some []) \<and> p_apiKey updates = Present (Some []) \<longrightarrow>
         updateConfig env updates m h = (Inl (ConfigurationError key_required), m, h))"
proof (intro conjI)
  show "new_ConfigManager env cfg h = (Inr m1, h1) \<longrightarrow> getApiKey m1 h1 \<noteq> []"
    by (auto simp: new_ConfigManager_def getApiKey_def split: sum.splits
        dest: validateAndMergeConfig_key)
next
  show "case updateConfig env updates m h of
         (Inr u, m', h') \<Rightarrow>
            getApiKey m' h' \<noteq> [] \<and>
            validateAndMergeConfig env (Some (spread (as_partial (h ! config_ref m)) updates))
              = Inr (h' ! config_ref m')
       | (Inl e, m', h') \<Rightarrow>
            e = ConfigurationError key_required \<and> m' = m \<and> h' = h \<and>
            snd (getConfig m' h') ! fst (getConfig m' h') = h ! config_ref m"
    by (auto simp: updateConfig_def getApiKey_def getConfig_def split: sum.splits
        dest: validateAndMergeConfig_key validateAndMergeConfig_error)
next
  show "(env = None \<or> env = Some []) \<and> p_apiKey updates = Present (Some []) \<longrightarrow>
         updateConfig env updates m h = (Inl (ConfigurationError key_required), m, h)"
    using validate_empty_key_no_env [of env updates "h ! config_ref m"]
    by (simp add: updateConfig_def)
qed

text \<open>
  An update that leaves the key alone, or gives a non-empty one, succeeds.
\<close>

lemma update_succeeds:
  assumes "p_apiKey updates = Absent \<or> p_apiKey updates = Present (Some (c # cs))"
    and "apiKey (h ! config_ref m) \<noteq> []"
  shows "\<exists>stored. updateConfig env updates m h = (Inr (), m\<lparr>config_ref := length h\<rparr>, h @ [stored])
           \<and> apiKey stored =
               (if p_apiKey updates = Absent then apiKey (h ! config_ref m) else c # cs)"
proof -
  obtain k ks where k: "apiKey (h ! config_ref m) = k # ks"
    using assms(2) by (cases "apiKey (h ! config_ref m)") auto
  from assms(1) show ?thesis
  proof
    assume "p_apiKey updates = Absent"
    with k show ?thesis
      by (simp add: updateConfig_def validateAndMergeConfig_def spread_def as_partial_def
          or_else_def Let_def)
  next
    assume "p_apiKey updates = Present (Some (c # cs))"
    then show ?thesis
      by (simp add: updateConfig_def validateAndMergeConfig_def spread_def as_partial_def
          or_else_def Let_def)
  qed
qed

text \<open>
  With the environment variable set to a non-empty key, every update with an empty
  key succeeds: the stored object is replaced by one whose credential is the
  environment's.
\<close>

lemma update_env_fallback:
  assumes "env = Some (c # cs)" and "p_apiKey updates = Present (Some [])"
  shows "\<exists>stored. updateConfig env updates m h = (Inr (), m\<lparr>config_ref := length h\<rparr>, h @ [stored])
           \<and> apiKey stored = c # cs"
  using assms
  by (simp add: updateConfig_def validateAndMergeConfig_def spread_def as_partial_def
      or_else_def Let_def)

text \<open>
  C7 says that \<^verbatim>\<open>updateConfig({apiKey: ""})\<close> on a valid configuration throws a
  ConfigurationError and leaves the old credential in place; the repository's test
  \<^verbatim>\<open>should validate API key when updating\<close> expects the same. The code does not do so
  when \<^verbatim>\<open>TRIPADVISOR_API_KEY\<close> is set: on the configuration with credential \<^verbatim>\<open>k1\<close> and the
  environment key \<^verbatim>\<open>env-key\<close>, the update returns normally and the stored credential
  is \<^verbatim>\<open>env-key\<close>.
\<close>

theorem empty_key_update_takes_env_key:
  "updateConfig (Some ''env-key'') (no_updates\<lparr>p_apiKey := Present (Some [])\<rparr>)
      \<lparr>config_ref = 0\<rparr> [example_config]
     = (Inr (), \<lparr>config_ref = 1\<rparr>, [example_config, example_config\<lparr>apiKey := ''env-key''\<rparr>])
   \<and> getApiKey \<lparr>config_ref = 0\<rparr> [example_config] = ''k1''
   \<and> getApiKey \<lparr>config_ref = 1\<rparr> [example_config, example_config\<lparr>apiKey := ''env-key''\<rparr>]
       = ''env-key''"
  by (simp add: updateConfig_def validateAndMergeConfig_def spread_def as_partial_def
      no_updates_def DEFAULT_CONFIG_def or_else_def example_config_def getApiKey_def)

section \<open>Properties of a request\<close>

lemma request_rejects:
  assumes "payloadSchema payload = Inl zerr"
  shows "request cfg endpoint payload payloadSchema rs options w =
           (Inl (Thrown (ValidationError (''Invalid request payload: '' @ zerr))), w)"
  using assms by (simp add: request_def Let_def)

lemma map_filter_nonempty:
  "list_ex (\<lambda>x. f x \<noteq> None) xs \<Longrightarrow> List.map_filter f xs \<noteq> []"
  by (induction xs) (auto simp: List.map_filter_simps split: option.splits)

lemma validate_shape_missing_required:
  assumes "missing_required sh v"
  shows "\<exists>zerr. validate_shape sh v = Inl zerr"
proof -
  from assms obtain fs where fs: "fs \<in> set sh" "snd (snd fs) = Required" "absent v (fst fs)"
    by (auto simp: missing_required_def list_ex_iff)
  obtain f ty mk where t: "fs = (f, ty, mk)"
    by (cases fs) auto
  from fs(2,3) have "check_field v fs \<noteq> None"
    by (simp add: t)
  with fs(1) have "list_ex (\<lambda>x. check_field v x \<noteq> None) sh"
    by (auto simp: list_ex_iff)
  then have "List.map_filter (check_field v) sh \<noteq> []"
    by (rule map_filter_nonempty)
  then show ?thesis
    by (auto simp: validate_shape_def split: list.splits)
qed

text \<open>
  C6. For every shape and every parameter object missing a field the shape marks
  required, \<^verbatim>\<open>request\<close> throws a ValidationError and returns the world as it found it:
  the trace gains no call of the URL encoder and none of \<^verbatim>\<open>fetch\<close>. (\<open>request_rejects\<close>
  above gives the same for any schema whose \<^verbatim>\<open>parse\<close> throws.)
\<close>

theorem request_rejects_missing_required:
  assumes "missing_required sh payload"
  shows "\<exists>zerr. validate_shape sh payload = Inl zerr \<and>
           request cfg endpoint payload (validate_shape sh) rs options w =
             (Inl (Thrown (ValidationError (''Invalid request payload: '' @ zerr))), w)"
  using validate_shape_missing_required [OF assms] request_rejects by blast

theorem request_rejects_missing_required_witness:
  "\<exists>zerr. validate_shape [(''searchQuery'', TString, Required), (''language'', TString, Optional)]
             [(''invalidField'', JStr ''test'')] = Inl zerr \<and>
     request example_config ''/location/search'' [(''invalidField'', JStr ''test'')]
       (validate_shape [(''searchQuery'', TString, Required), (''language'', TString, Optional)])
       accept_any no_options \<lparr>future = sconst (ok_json (JObj [(''data'', JArr [])])), trace = []\<rparr> =
     (Inl (Thrown (ValidationError (''Invalid request payload: '' @ zerr))),
      \<lparr>future = sconst (ok_json (JObj [(''data'', JArr [])])), trace = []\<rparr>)"
  by (rule request_rejects_missing_required) (simp add: missing_required_def absent_def)






lemma new_TripAdvisorError_raised:
  "(\<exists>m. raised (new_TripAdvisorError msg c t True) = TripAdvisorError m c t True)
   \<or> raised (new_TripAdvisorError msg c t True) = cannot_convert"
  by (auto simp: new_TripAdvisorError_def split: option.splits)

lemma fromApiResponse_raised:
  "(\<exists>m c t. raised (fromApiResponse body) = TripAdvisorError m c t True)
   \<or> raised (fromApiResponse body) = cannot_convert"
  using new_TripAdvisorError_raised
  by (simp add: fromApiResponse_def Let_def) blast

lemma log_buildUrl_fetch_count: "fetch_count (log_event (Call_buildUrl e p) w) = fetch_count w"
  by (simp add: log_event_def fetch_count_def)


lemmas retry_simps = isRetryableError_def starts_with_def is_digit_def

lemma example_url:
  "buildUrl example_config ''/location/search'' [(''searchQuery'', JStr ''Paris'')]
     = Inr ''https://api.example/v1/location/search?key=k1&searchQuery=Paris''"
  by (simp add: buildUrl_def toString_call_def template_string_def example_config_def form_simps)

lemma example_retries: "retries example_config = Some 3"
  by (simp add: example_config_def)

lemma example_timeout: "timeout example_config = Some 30000"
  by (simp add: example_config_def)

lemma example_retryDelay: "retryDelay example_config = Some 1000"
  by (simp add: example_config_def)

lemmas example_simps = example_url example_retries example_timeout example_retryDelay



text \<open>
  A message that does not convert to a string: the body \<^verbatim>\<open>{"Message": {"toString": 1}}\<close>
  is an API error by the test of \<^verbatim>\<open>isApiError\<close>, and constructing the error throws the
  TypeError of the conversion, which is what the attempt fails with.
\<close>

lemma unprintable_message_example:
  "isApiError (JObj [(''Message'', JObj [(''toString'', JNum ''1'')])])
   \<and> fst (attempt ''u'' ''GET'' [] accept_any (Some 30000)
       \<lparr>future = sconst (ok_json (JObj [(''Message'', JObj [(''toString'', JNum ''1'')])])),
        trace = []\<rparr>) = Inl cannot_convert"
  by (simp add: attempt_def sendRequest_def ok_json_def response_ok_def isApiError_def
      fromApiResponse_def new_TripAdvisorError_def)


section \<open>Which error a call surfaces, and which errors are retried\<close>

lemma outcome_error_kinds:
  assumes "outcome_result rs oc = Inl e"
  shows "(\<exists>z. e = ValidationError (''Invalid response format: '' @ z))
         \<or> (\<exists>m c t. e = TripAdvisorError m c t True)
         \<or> e = cannot_convert
         \<or> oc = FetchRejects e
         \<or> (\<exists>st stext b. oc = FetchResponds st stext b \<and> (b = JsonRejects e \<or> e = http_error st stext))"
proof (cases oc)
  case (FetchRejects x)
  with assms show ?thesis by (simp add: outcome_result_def)
next
  case (FetchResponds st stext b)
  show ?thesis
  proof (cases "response_ok st")
    case False
    with assms FetchResponds show ?thesis by (simp add: outcome_result_def)
  next
    case True
    show ?thesis
    proof (cases b)
      case (JsonRejects x)
      with assms FetchResponds True show ?thesis by (simp add: outcome_result_def)
    next
      case (JsonOk data)
      show ?thesis
      proof (cases "isApiError data")
        case True
        with assms FetchResponds \<open>response_ok st\<close> JsonOk have "e = raised (fromApiResponse data)"
          by (simp add: outcome_result_def)
        with fromApiResponse_raised [of data]
        have "(\<exists>m c t. e = TripAdvisorError m c t True) \<or> e = cannot_convert"
          by simp
        then show ?thesis by blast
      next
        case False
        with assms FetchResponds \<open>response_ok st\<close> JsonOk
        have "\<exists>z. e = ValidationError (''Invalid response format: '' @ z)"
          by (auto simp: outcome_result_def split: sum.splits)
        then show ?thesis by blast
      qed
    qed
  qed
qed

lemma loop_error_last:
  assumes "n \<le> rts"
    and "sendWithRetry_loop url meth hdrs rs rts delay tmo n le w = (Inl x, w')"
  shows "\<exists>k e. k \<le> nat (rts - n) \<and> fetch_count w' = fetch_count w + Suc k
           \<and> x = Thrown e \<and> outcome_result rs (future w !! k) = Inl e"
  using assms
proof (induction url meth hdrs rs rts delay tmo n le w rule: sendWithRetry_loop.induct)
  case (1 url meth hdrs rs rts delay tmo n le w)
  obtain r w1 where a: "attempt url meth hdrs rs tmo w = (r, w1)"
    by (cases "attempt url meth hdrs rs tmo w")
  have r: "r = outcome_result rs (shd (future w))"
    using a attempt_fst [of url meth hdrs rs tmo w] by simp
  have c1: "fetch_count w1 = Suc (fetch_count w)"
    using a attempt_fetch_count [of url meth hdrs rs tmo w] by simp
  show ?case
  proof (cases r)
    case (Inr v)
    with a "1.prems" show ?thesis
      by (subst (asm) sendWithRetry_loop.simps) simp
  next
    case (Inl e0)
    show ?thesis
    proof (cases "n = rts \<or> \<not> isRetryableError e0")
      case True
      have "sendWithRetry_loop url meth hdrs rs rts delay tmo n le w = (Inl (Thrown e0), w1)"
        using a Inl "1.prems"(1) True by (subst sendWithRetry_loop.simps) auto
      with "1.prems"(2) have "x = Thrown e0" "w' = w1" by simp_all
      with c1 r Inl show ?thesis
        by (intro exI [of _ 0] exI [of _ e0]) simp
    next
      case False
      then have ne: "n \<noteq> rts" and re: "isRetryableError e0" by auto
      with "1.prems" have lt: "n < rts" by simp
      let ?w2 = "log_event (Call_delay (backoff delay n)) w1"
      have fut: "future ?w2 = stl (future w)"
        using a attempt_future [of url meth hdrs rs tmo w] by (simp add: log_event_future)
      have cnt: "fetch_count ?w2 = Suc (fetch_count w)"
        using c1 by (simp add: log_delay_fetch_count)
      have rec: "sendWithRetry_loop url meth hdrs rs rts delay tmo (n + 1) (Some e0) ?w2 = (Inl x, w')"
        using "1.prems" a Inl ne re by (subst (asm) sendWithRetry_loop.simps) simp
      have re': "\<not> \<not> isRetryableError e0" using re by simp
      from "1.IH" [OF "1.prems"(1) a [symmetric] Inl ne re' _ rec] lt
      obtain k e where k: "k \<le> nat (rts - (n + 1))" "fetch_count w' = fetch_count ?w2 + Suc k"
        "x = Thrown e" "outcome_result rs (future ?w2 !! k) = Inl e"
        by auto
      have "Suc k \<le> nat (rts - n)" using k(1) lt by simp
      moreover have "fetch_count w' = fetch_count w + Suc (Suc k)" using k(2) cnt by simp
      moreover have "outcome_result rs (future w !! Suc k) = Inl e" using k(4) fut by simp
      ultimately show ?thesis using k(3) by blast
    qed
  qed
qed

text \<open>
  C8, amended. Given a non-negative retry count, the error a failing call surfaces is
  the ValidationError of the request payload (nothing else done), or the TypeError of
  a parameter value that cannot be printed (no attempt made), or the error of the last
  attempt made, alone: a ValidationError of the response, a TripAdvisorError flagged
  as API error, the TypeError of an API error message that cannot be printed, or the
  untyped error of the transport, which is what \<^verbatim>\<open>fetch\<close> or \<^verbatim>\<open>response.json()\<close> rejected
  with or the plain \<^verbatim>\<open>Error\<close> \<^verbatim>\<open>HTTP <status>: <text>\<close> of a response outside the 2xx
  range. No transport error class exists.
\<close>

theorem surfaced_error_is_last_attempt:
  assumes "request cfg endpoint payload payloadSchema rs options w = (Inl x, w')"
    and "or_default (opt_retries options) (retries cfg) = Some N" and "0 \<le> N"
  shows "(\<exists>z. payloadSchema payload = Inl z
            \<and> x = Thrown (ValidationError (''Invalid request payload: '' @ z)) \<and> w' = w)
         \<or> (\<exists>v e. payloadSchema payload = Inr v \<and> buildUrl cfg endpoint v = Inl e
               \<and> (e = not_a_function \<or> e = cannot_convert)
               \<and> x = Thrown e \<and> fetch_count w' = fetch_count w)
         \<or> (\<exists>k e. k \<le> nat N \<and> fetch_count w' = fetch_count w + Suc k \<and> x = Thrown e
               \<and> outcome_result rs (future w !! k) = Inl e
               \<and> ((\<exists>z. e = ValidationError (''Invalid response format: '' @ z))
                  \<or> (\<exists>m c t. e = TripAdvisorError m c t True)
                  \<or> e = cannot_convert
                  \<or> future w !! k = FetchRejects e
                  \<or> (\<exists>st stext b. future w !! k = FetchResponds st stext b
                        \<and> (b = JsonRejects e \<or> e = http_error st stext))))"
proof (cases "payloadSchema payload")
  case (Inl z)
  with assms(1) show ?thesis by (simp add: request_def Let_def)
next
  case (Inr validated)
  let ?w1 = "log_event (Call_buildUrl endpoint validated) w"
  show ?thesis
  proof (cases "buildUrl cfg endpoint validated")
    case (Inl e)
    with assms(1) Inr have "x = Thrown e" "w' = ?w1"
      by (simp_all add: request_def Let_def)
    with Inl Inr buildUrl_error [OF Inl] show ?thesis
      by (simp add: log_buildUrl_fetch_count)
  next
    case url: (Inr url)
    from assms(1,2) Inr url obtain meth hdrs delay tmo where
      "sendWithRetry_loop url meth hdrs rs N delay tmo 0 None ?w1 = (Inl x, w')"
      by (simp add: request_def Let_def sendWithRetry_def)
    from loop_error_last [OF assms(3) this]
    obtain k e where k: "k \<le> nat N" "fetch_count w' = fetch_count ?w1 + Suc k" "x = Thrown e"
      "outcome_result rs (future ?w1 !! k) = Inl e"
      by auto
    have f: "future ?w1 = future w" by (simp add: log_event_future)
    from k(4) f have o: "outcome_result rs (future w !! k) = Inl e" by simp
    from k(2) have c: "fetch_count w' = fetch_count w + Suc k"
      by (simp add: log_buildUrl_fetch_count)
    from outcome_error_kinds [OF o] k(1,3) c o show ?thesis by blast
  qed
qed

lemma show_404: "show_nat 404 = ''404''"
  by (simp add: show_nat.simps digit_char_def)

lemma not_found_eval:
  "request example_config ''/location/search'' [(''searchQuery'', JStr ''Paris'')] accept_any
       accept_any no_options
       \<lparr>future = sconst (FetchResponds 404 ''Not Found'' (JsonOk JNull)), trace = []\<rparr> =
     (Inl (Thrown (PlainError ''Error'' ''HTTP 404: Not Found'')),
      \<lparr>future = sconst (FetchResponds 404 ''Not Found'' (JsonOk JNull)),
       trace = [Call_buildUrl ''/location/search'' [(''searchQuery'', JStr ''Paris'')],
                Call_fetch ''https://api.example/v1/location/search?key=k1&searchQuery=Paris''
                  ''GET'' [(''Accept'', ''application/json''), (''Content-Type'', ''application/json'')]
                  (Some 30000)]\<rparr>)"
  by (simp add: request_def accept_any_def no_options_def
      or_default_def sendWithRetry_def sendWithRetry_loop.simps attempt_def sendRequest_def
      response_ok_def http_error_def show_404 log_event_def retry_simps buildHeaders_def
      example_simps)

text \<open>
  C8, as stated, says every surfaced error is an instance of a typed error class. A
  404 response surfaces a plain \<^verbatim>\<open>Error\<close>.
\<close>

theorem plain_error_counterexample:
  "fst (request example_config ''/location/search'' [(''searchQuery'', JStr ''Paris'')] accept_any
       accept_any no_options
       \<lparr>future = sconst (FetchResponds 404 ''Not Found'' (JsonOk JNull)), trace = []\<rparr>)
     = Inl (Thrown (PlainError ''Error'' ''HTTP 404: Not Found''))
   \<and> \<not> typed_error (PlainError ''Error'' ''HTTP 404: Not Found'')"
  by (simp add: not_found_eval)

theorem surfaced_error_is_last_attempt_witness:
  "(\<exists>z. (accept_any :: obj schema) [(''searchQuery'', JStr ''Paris'')] = Inl z
            \<and> Thrown (PlainError ''Error'' ''HTTP 404: Not Found'') = Thrown (ValidationError (''Invalid request payload: '' @ z)) \<and> \<lparr>future = sconst (FetchResponds 404 ''Not Found'' (JsonOk JNull)),
          trace = [Call_buildUrl ''/location/search'' [(''searchQuery'', JStr ''Paris'')],
                Call_fetch ''https://api.example/v1/location/search?key=k1&searchQuery=Paris''
                  ''GET'' [(''Accept'', ''application/json''), (''Content-Type'', ''application/json'')]
                  (Some 30000)]\<rparr> = \<lparr>future = sconst (FetchResponds 404 ''Not Found'' (JsonOk JNull)), trace = []\<rparr>)
         \<or> (\<exists>v e. (accept_any :: obj schema) [(''searchQuery'', JStr ''Paris'')] = Inr v \<and> buildUrl example_config ''/location/search'' v = Inl e
               \<and> (e = not_a_function \<or> e = cannot_convert)
               \<and> Thrown (PlainError ''Error'' ''HTTP 404: Not Found'') = Thrown e \<and> fetch_count \<lparr>future = sconst (FetchResponds 404 ''Not Found'' (JsonOk JNull)),
          trace = [Call_buildUrl ''/location/search'' [(''searchQuery'', JStr ''Paris'')],
                Call_fetch ''https://api.example/v1/location/search?key=k1&searchQuery=Paris''
                  ''GET'' [(''Accept'', ''application/json''), (''Content-Type'', ''application/json'')]
                  (Some 30000)]\<rparr> = fetch_count \<lparr>future = sconst (FetchResponds 404 ''Not Found'' (JsonOk JNull)), trace = []\<rparr>)
         \<or> (\<exists>k e. k \<le> nat 3 \<and> fetch_count \<lparr>future = sconst (FetchResponds 404 ''Not Found'' (JsonOk JNull)),
          trace = [Call_buildUrl ''/location/search'' [(''searchQuery'', JStr ''Paris'')],
                Call_fetch ''https://api.example/v1/location/search?key=k1&searchQuery=Paris''
                  ''GET'' [(''Accept'', ''application/json''), (''Content-Type'', ''application/json'')]
                  (Some 30000)]\<rparr> = fetch_count \<lparr>future = sconst (FetchResponds 404 ''Not Found'' (JsonOk JNull)), trace = []\<rparr> + Suc k \<and> Thrown (PlainError ''Error'' ''HTTP 404: Not Found'') = Thrown e
               \<and> outcome_result accept_any (future \<lparr>future = sconst (FetchResponds 404 ''Not Found'' (JsonOk JNull)), trace = []\<rparr> !! k) = Inl e
               \<and> ((\<exists>z. e = ValidationError (''Invalid response format: '' @ z))
                  \<or> (\<exists>m c t. e = TripAdvisorError m c t True)
                  \<or> e = cannot_convert
                  \<or> future \<lparr>future = sconst (FetchResponds 404 ''Not Found'' (JsonOk JNull)), trace = []\<rparr> !! k = FetchRejects e
                  \<or> (\<exists>st stext b. future \<lparr>future = sconst (FetchResponds 404 ''Not Found'' (JsonOk JNull)), trace = []\<rparr> !! k = FetchResponds st stext b
                        \<and> (b = JsonRejects e \<or> e = http_error st stext))))"
  by (rule surfaced_error_is_last_attempt [OF not_found_eval])
     (simp_all add: no_options_def example_simps or_default_def)

text \<open>
  A parameter value that cannot be printed: \<^verbatim>\<open>request\<close> throws the TypeError of
  \<^verbatim>\<open>value.toString()\<close> before any \<^verbatim>\<open>fetch\<close>.
\<close>

lemma unprintable_parameter_example:
  "request example_config ''/location/search''
       [(''searchQuery'', JObj [(''toString'', JNum ''1'')])] accept_any accept_any no_options
       \<lparr>future = sconst (ok_json (JObj [(''data'', JArr [])])), trace = []\<rparr> =
     (Inl (Thrown not_a_function),
      \<lparr>future = sconst (ok_json (JObj [(''data'', JArr [])])),
       trace = [Call_buildUrl ''/location/search''
                  [(''searchQuery'', JObj [(''toString'', JNum ''1'')])]]\<rparr>)"
  by (simp add: request_def accept_any_def buildUrl_def toString_call_def log_event_def)

lemma starts_with_other: "sub \<noteq> [] \<Longrightarrow> c \<noteq> hd sub \<Longrightarrow> \<not> starts_with (c # s) sub"
  by (cases sub) (auto simp: starts_with_def)

lemma str_includes_skip:
  assumes "sub \<noteq> []" and "\<forall>c\<in>set pre. c \<noteq> hd sub"
  shows "str_includes (pre @ s) sub = str_includes s sub"
  using assms(2)
proof (induction pre)
  case Nil
  show ?case by simp
next
  case (Cons c pre)
  then show ?case using assms(1) by (simp add: starts_with_other)
qed

lemma digit_char_digit: "digit_char d \<in> set ''0123456789''"
proof -
  have "d mod 10 < length ''0123456789''" by simp
  then show ?thesis unfolding digit_char_def by (rule nth_mem)
qed

lemma show_nat_digits: "set (show_nat n) \<subseteq> set ''0123456789''"
proof (induction n rule: show_nat.induct)
  case (1 n)
  show ?case
  proof (cases "n < 10")
    case True
    then show ?thesis
      using digit_char_digit [of n] by (subst show_nat.simps) simp
  next
    case False
    with "1" have "set (show_nat (n div 10)) \<subseteq> set ''0123456789''" by simp
    with False digit_char_digit [of "n mod 10"] show ?thesis
      by (subst show_nat.simps) simp
  qed
qed

lemma http_prefix_skip:
  assumes "sub \<noteq> []" and "hd sub \<notin> set ''HTP :0123456789''"
  shows "str_includes (''HTTP '' @ show_nat st @ '': '' @ stext) sub = str_includes stext sub"
proof -
  have "\<forall>c\<in>set (''HTTP '' @ show_nat st @ '': ''). c \<noteq> hd sub"
    using assms(2) show_nat_digits [of st] by auto
  from str_includes_skip [OF assms(1) this, of stext] show ?thesis by simp
qed

lemma http_error_retryable:
  "isRetryableError (http_error st stext) =
     (str_includes stext ''fetch'' \<or> str_includes stext ''network'' \<or> str_includes stext ''timeout'')"
proof -
  have "\<not> matches_5xx (''HTTP '' @ show_nat st @ '': '' @ stext)" by simp
  moreover have "str_includes (''HTTP '' @ show_nat st @ '': '' @ stext) ''fetch'' = str_includes stext ''fetch''"
    by (rule http_prefix_skip) simp_all
  moreover have "str_includes (''HTTP '' @ show_nat st @ '': '' @ stext) ''network'' = str_includes stext ''network''"
    by (rule http_prefix_skip) simp_all
  moreover have "str_includes (''HTTP '' @ show_nat st @ '': '' @ stext) ''timeout'' = str_includes stext ''timeout''"
    by (rule http_prefix_skip) simp_all
  ultimately show ?thesis
    by (simp add: isRetryableError_def http_error_def)
qed

lemma show_500: "show_nat 500 = ''500''"
  by (simp add: show_nat.simps digit_char_def)

text \<open>
  C1 says a failure with a 5xx status is retryable and, with budget left, leads to
  another attempt. The code does not do so: the message of the error is
  \<^verbatim>\<open>HTTP 500: Internal Server Error\<close>, the pattern \<^verbatim>\<open>/^5\d{2}/\<close> is anchored where the
  message reads \<^verbatim>\<open>HTTP\<close>, and with three retries configured the call throws after one
  \<^verbatim>\<open>fetch\<close>. By \<open>http_error_retryable\<close> above the status never matters: an HTTP
  failure is retried exactly when its status text contains one of the three words.
\<close>

theorem server_error_not_retried:
  "\<not> isRetryableError (http_error 500 ''Internal Server Error'')
   \<and> sendWithRetry ''u'' ''GET'' [] accept_any (Some 3) (Some 1000) (Some 30000)
       \<lparr>future = sconst (FetchResponds 500 ''Internal Server Error'' (JsonOk JNull)), trace = []\<rparr>
     = (Inl (Thrown (PlainError ''Error'' ''HTTP 500: Internal Server Error'')),
        \<lparr>future = sconst (FetchResponds 500 ''Internal Server Error'' (JsonOk JNull)),
         trace = [Call_fetch ''u'' ''GET'' [] (Some 30000)]\<rparr>)"
  by (simp add: sendWithRetry_def sendWithRetry_loop.simps attempt_def sendRequest_def
      response_ok_def http_error_def show_500 retry_simps)

lemma show_503: "show_nat 503 = ''503''"
  by (simp add: show_nat.simps digit_char_def)

text \<open>
  C2 says that with a retry budget \<open>N\<close>, when every attempt fails with a retryable
  transport error (a timeout, a connection failure or a 5xx status), \<^verbatim>\<open>fetch\<close> is
  called \<open>N + 1\<close> times. The code does not do so on a run of 5xx responses: with
  \<open>N = 3\<close> and every response a 503, \<^verbatim>\<open>fetch\<close> is called once. (\<open>retries_exhausted\<close>
  above gives the \<open>N + 1\<close> calls and the last attempt's error for the failures the
  classifier does accept.)
\<close>

theorem unavailable_service_fetched_once:
  "sendWithRetry ''u'' ''GET'' [] accept_any (Some 3) (Some 1000) (Some 30000)
       \<lparr>future = sconst (FetchResponds 503 ''Service Unavailable'' (JsonOk JNull)), trace = []\<rparr>
     = (Inl (Thrown (PlainError ''Error'' ''HTTP 503: Service Unavailable'')),
        \<lparr>future = sconst (FetchResponds 503 ''Service Unavailable'' (JsonOk JNull)),
         trace = [Call_fetch ''u'' ''GET'' [] (Some 30000)]\<rparr>)
   \<and> fetch_count
        \<lparr>future = sconst (FetchResponds 503 ''Service Unavailable'' (JsonOk JNull)),
         trace = [Call_fetch ''u'' ''GET'' [] (Some 30000)]\<rparr> = 1"
  by (simp add: sendWithRetry_def sendWithRetry_loop.simps attempt_def sendRequest_def
      response_ok_def http_error_def show_503 retry_simps fetch_count_def)

text \<open>
  C3 says a classified API error ends the call at once. The code does not do so when
  the error's message contains one of the classifier's words: with one retry configured
  and the body \<^verbatim>\<open>{Message: "upstream timeout"}\<close>, the client waits, calls \<^verbatim>\<open>fetch\<close>
  again and returns the second response.
\<close>

theorem api_error_with_timeout_text_is_retried:
  "isApiError (JObj [(''Message'', JStr ''upstream timeout'')])
   \<and> sendWithRetry ''u'' ''GET'' [] accept_any (Some 1) (Some 1000) (Some 30000)
       \<lparr>future = ok_json (JObj [(''Message'', JStr ''upstream timeout'')])
                  ## sconst (ok_json (JObj [(''data'', JArr [])])),
        trace = []\<rparr>
     = (Inr (JObj [(''data'', JArr [])]),
        \<lparr>future = sconst (ok_json (JObj [(''data'', JArr [])])),
         trace = [Call_fetch ''u'' ''GET'' [] (Some 30000), Call_delay (Some 1000),
                  Call_fetch ''u'' ''GET'' [] (Some 30000),
                  Call_responseSchema (JObj [(''data'', JArr [])])]\<rparr>)"
  by (simp add: sendWithRetry_def sendWithRetry_loop.simps attempt_def sendRequest_def
      response_ok_def ok_json_def isApiError_def fromApiResponse_def new_TripAdvisorError_def
      accept_any_def log_event_def backoff_def retry_simps)

end
